theory Spec2Isabelle
  imports Complex_Main "HOL-Library.Sublist"
begin

section \<open>Python values used by the services\<close>

text \<open>
  The services answer with Python dictionaries whose values are strings or \<open>None\<close>.
  A dictionary literal is kept as the association list of its keys in source order;
  \<open>dict_get\<close> is \<open>d.get(k)\<close>.  Python strings are modelled as byte strings (UTF-8);
  the few non-ASCII message literals of the source are spelled out byte by byte.
\<close>

datatype pyval = PNone | PStr string

type_synonym pydict = "(string \<times> pyval) list"

definition dict_get :: "pydict \<Rightarrow> string \<Rightarrow> pyval option" where
  "dict_get d k = map_of d k"

text \<open>Truthiness of an optional string: \<open>None\<close> and the empty string are falsy.\<close>

fun truthy :: "string option \<Rightarrow> bool" where
  "truthy None = False"
| "truthy (Some s) = (s \<noteq> [])"

text \<open>\<open>x or d\<close> for an optional string \<open>x\<close> and a default string \<open>d\<close>.\<close>

fun py_or :: "string option \<Rightarrow> string \<Rightarrow> string" where
  "py_or None d = d"
| "py_or (Some s) d = (if s \<noteq> [] then s else d)"

text \<open>\<open>d.get(k, default)\<close> for a key whose value, when present, is a string.\<close>

fun get_default :: "string option \<Rightarrow> string \<Rightarrow> string" where
  "get_default None d = d"
| "get_default (Some s) d = s"

subsection \<open>Decimal rendering of integers (\<open>str(n)\<close>, \<open>f"{n}"\<close>)\<close>

definition digit_char :: "nat \<Rightarrow> char" where
  "digit_char d = ''0123456789'' ! d"

definition digit_val :: "char \<Rightarrow> nat" where
  "digit_val c = of_char c - 48"

fun str_nat :: "nat \<Rightarrow> string" where
  "str_nat n = (if n < 10 then [digit_char n] else str_nat (n div 10) @ [digit_char (n mod 10)])"

declare str_nat.simps [simp del]

definition str_int :: "int \<Rightarrow> string" where
  "str_int i = (if i < 0 then CHR ''-'' # str_nat (nat (- i)) else str_nat (nat i))"

definition nat_of_digits :: "string \<Rightarrow> nat" where
  "nat_of_digits s = foldl (\<lambda>a c. 10 * a + digit_val c) 0 s"

definition int_of_str :: "string \<Rightarrow> int" where
  "int_of_str s = (case s of [] \<Rightarrow> 0
     | c # cs \<Rightarrow> if c = CHR ''-'' then - int (nat_of_digits cs) else int (nat_of_digits s))"

section \<open>Session orchestrator (\<open>TryOnService\<close>)\<close>

subsection \<open>In-memory session tables\<close>

text \<open>
  \<open>self._session_outputs\<close> and \<open>self._session_errors\<close>, both \<open>dict[str, str]\<close>.
  Every access of the source happens under \<open>self._lock\<close>; an operation of the model is
  one atomic step.
\<close>

record service =
  session_outputs :: "string \<rightharpoonup> string"
  session_errors :: "string \<rightharpoonup> string"

definition new_service :: service where
  "new_service = \<lparr>session_outputs = Map.empty, session_errors = Map.empty\<rparr>"

text \<open>
  The outputs directory as \<open>get_result\<close> sees it: the predicate tells whether
  \<open>self._outputs_dir / fname\<close> exists.
\<close>

type_synonym outputs_dir = "string \<Rightarrow> bool"

subsection \<open>Session identifiers\<close>

text \<open>
  \<open>session_id = f"tryon_{int(time.time()*1000)}"\<close>.  The argument is the clock reading
  already truncated to whole milliseconds, \<open>int(time.time()*1000)\<close>.
\<close>

definition session_id_of :: "int \<Rightarrow> string" where
  "session_id_of ms = ''tryon_'' @ str_int ms"

subsection \<open>\<open>TryOnService.get_result\<close>\<close>

text \<open>
  The source is one function.  \<open>get_result_lookup\<close> is its second half, reached when the
  error table holds no truthy message for the session: the success table, then the file
  \<open><session_id>.jpg\<close> in the outputs directory, then \<open>pending\<close>.  The test
  \<open>not session_id\<close> holds for \<open>None\<close> and for the empty string; identifiers are strings
  here, so it is the test for the empty string.  The source reads the two tables under
  the lock, releases it for the file check and takes it again for the write; the model
  performs the call in one step.
\<close>

definition get_result_lookup :: "service \<Rightarrow> outputs_dir \<Rightarrow> string \<Rightarrow> pydict \<times> service" where
  "get_result_lookup svc exists_file session_id =
    (case session_outputs svc session_id of
       Some out \<Rightarrow> ([(''status'', PStr ''ok''), (''output'', PStr out)], svc)
     | None \<Rightarrow>
         (let fname = session_id @ ''.jpg'' in
          if exists_file fname then
            (let pub = ''/static/outputs/'' @ fname in
             ([(''status'', PStr ''ok''), (''output'', PStr pub)],
              svc\<lparr>session_outputs := (session_outputs svc)(session_id \<mapsto> pub)\<rparr>))
          else ([(''status'', PStr ''pending'')], svc)))"

definition get_result :: "service \<Rightarrow> outputs_dir \<Rightarrow> string \<Rightarrow> pydict \<times> service" where
  "get_result svc exists_file session_id =
    (if session_id = [] then
       ([(''status'', PStr ''error''), (''message'', PStr ''session_id missing'')], svc)
     else
       (case session_errors svc session_id of
          Some err_msg \<Rightarrow>
            if err_msg \<noteq> [] then
              ([(''status'', PStr ''error''), (''message'', PStr err_msg), (''output'', PNone)], svc)
            else get_result_lookup svc exists_file session_id
        | None \<Rightarrow> get_result_lookup svc exists_file session_id))"

subsection \<open>Background jobs\<close>

text \<open>
  What the vendor adapter hands back to a background job: a result dictionary with the
  keys \<open>status\<close>, \<open>output_path\<close> and \<open>message\<close> (each possibly absent or \<open>None\<close>), or an
  exception, of which the job only uses \<open>type(e).__name__\<close>.
\<close>

datatype vendor_outcome =
    Returned (res_status: "string option") (res_output_path: "string option")
      (res_message: "string option")
  | Raised string

text \<open>
  \<open>_bg_job\<close>, \<open>_bg_job_klingai\<close> and \<open>_bg_job_advanced\<close> write the tables in the same way:
  \<open>if res.get("status") == "ok" and out_public\<close> stores the output, anything else stores
  \<open>msg or "try-on failed"\<close>, and an exception stores \<open>f"error: {type(e).__name__}"\<close>.
\<close>

definition bg_job :: "string \<Rightarrow> vendor_outcome \<Rightarrow> service \<Rightarrow> service" where
  "bg_job session_id outcome svc =
    (case outcome of
       Returned st out_public msg \<Rightarrow>
         (case out_public of
            Some out \<Rightarrow>
              if st = Some ''ok'' \<and> out \<noteq> [] then
                svc\<lparr>session_outputs := (session_outputs svc)(session_id \<mapsto> out)\<rparr>
              else
                svc\<lparr>session_errors := (session_errors svc)(session_id \<mapsto> py_or msg ''try-on failed'')\<rparr>
          | None \<Rightarrow>
              svc\<lparr>session_errors := (session_errors svc)(session_id \<mapsto> py_or msg ''try-on failed'')\<rparr>)
     | Raised exc_name \<Rightarrow>
         svc\<lparr>session_errors := (session_errors svc)(session_id \<mapsto> ''error: '' @ exc_name)\<rparr>)"

text \<open>
  \<open>_bg_job_two_phase\<close>: the upper stage fails, or the lower stage succeeds or fails, or
  an exception is caught.  (As the source stands the job reads the name \<open>garment_info\<close>,
  which its enclosing function never binds, so the first vendor call already ends in
  \<open>TwoPhaseRaised ''NameError''\<close>; the other outcomes are kept for the table writes
  the code spells out.)
\<close>

datatype two_phase_outcome =
    UpperFailed "string option"
  | LowerOk string
  | LowerFailed "string option"
  | TwoPhaseRaised string

definition bg_job_two_phase :: "string \<Rightarrow> two_phase_outcome \<Rightarrow> service \<Rightarrow> service" where
  "bg_job_two_phase session_id outcome svc =
    (case outcome of
       UpperFailed msg \<Rightarrow>
         svc\<lparr>session_errors := (session_errors svc)(session_id \<mapsto> py_or msg ''upper stage failed'')\<rparr>
     | LowerOk out_public \<Rightarrow>
         svc\<lparr>session_outputs := (session_outputs svc)(session_id \<mapsto> out_public)\<rparr>
     | LowerFailed msg \<Rightarrow>
         svc\<lparr>session_errors := (session_errors svc)(session_id \<mapsto> py_or msg ''lower stage failed'')\<rparr>
     | TwoPhaseRaised exc_name \<Rightarrow>
         svc\<lparr>session_errors := (session_errors svc)(session_id \<mapsto> ''two_phase error: '' @ exc_name)\<rparr>)"

subsection \<open>Starting a session\<close>

text \<open>
  Everything a start call reads from outside the session tables: the clock, the settings
  file, which vendor adapters exist and are configured, and how the two file-handling
  stages end.  \<open>user_write\<close> is \<open>_write_data_url_to_file\<close> on the user image;
  \<open>garment_stage\<close> is the code between that call and the start of the background thread.
  \<open>garment_resolved\<close> tells whether that code ended with \<open>garment_abs_path\<close> set.
\<close>

datatype stage_outcome = StageOk | StageValueError string | StageException string

record start_env =
  clock_ms :: int
  vendor_setting :: string
  gemini_present :: bool
  gemini_client :: bool
  klingai_present :: bool
  klingai_access_set :: bool
  klingai_secret_set :: bool
  user_write :: stage_outcome
  garment_stage :: stage_outcome
  garment_resolved :: bool

record tryon_request =
  user_image_data_url :: string
  garment_image_url :: "string option"
  user_note :: "string option"

text \<open>A background thread started for a session, not yet finished.\<close>

datatype job = StdJob string | TwoPhaseJob string

text \<open>
  A start call ends with a response dictionary (\<open>Inr\<close>) or with an exception that leaves
  the method (\<open>Inl\<close>, carrying its text); it may start one background job and may write
  the error table.
\<close>

type_synonym start_result = "(string + pydict) \<times> job option \<times> service"

definition msg_klingai_keys :: string where
  "msg_klingai_keys =
     ''KlingAI API ''
     @ [CHR 0xE9, CHR 0x87, CHR 0x91, CHR 0xE9, CHR 0x91, CHR 0xB0, CHR 0xE6, CHR 0x9C, CHR 0xAA, CHR 0xE8, CHR 0xA8, CHR 0xAD, CHR 0xE5, CHR 0xAE, CHR 0x9A, CHR 0xEF, CHR 0xBC, CHR 0x8C, CHR 0xE8, CHR 0xAB, CHR 0x8B, CHR 0xE8, CHR 0x87, CHR 0xB3, CHR 0xE7, CHR 0xAE, CHR 0xA1, CHR 0xE7, CHR 0x90, CHR 0x86, CHR 0xE6, CHR 0x8E, CHR 0xA7, CHR 0xE5, CHR 0x88, CHR 0xB6, CHR 0xE5, CHR 0x8F, CHR 0xB0, CHR 0xE2, CHR 0x86, CHR 0x92, CHR 0xE7, CHR 0xB3, CHR 0xBB, CHR 0xE7, CHR 0xB5, CHR 0xB1, CHR 0xE8, CHR 0xA8, CHR 0xAD, CHR 0xE5, CHR 0xAE, CHR 0x9A, CHR 0xE4, CHR 0xB8, CHR 0xAD, CHR 0xE5, CHR 0xA1, CHR 0xAB, CHR 0xE5, CHR 0x85, CHR 0xA5]
     @ '' KLINGAI_ACCESS_KEY ''
     @ [CHR 0xE5, CHR 0x92, CHR 0x8C]
     @ '' KLINGAI_SECRET_KEY''"

definition msg_gemini_unconfigured_long :: string where
  "msg_gemini_unconfigured_long =
     ''Gemini API ''
     @ [CHR 0xE6, CHR 0x9C, CHR 0xAA, CHR 0xE9, CHR 0x85, CHR 0x8D, CHR 0xE7, CHR 0xBD, CHR 0xAE, CHR 0xE6, CHR 0x88, CHR 0x96, CHR 0xE4, CHR 0xB8, CHR 0x8D, CHR 0xE5, CHR 0x8F, CHR 0xAF, CHR 0xE7, CHR 0x94, CHR 0xA8, CHR 0xEF, CHR 0xBC, CHR 0x8C, CHR 0xE8, CHR 0xAB, CHR 0x8B, CHR 0xE6, CHR 0xAA, CHR 0xA2, CHR 0xE6, CHR 0x9F, CHR 0xA5]
     @ '' API ''
     @ [CHR 0xE9, CHR 0x87, CHR 0x91, CHR 0xE9, CHR 0x91, CHR 0xB0, CHR 0xE8, CHR 0xA8, CHR 0xAD, CHR 0xE5, CHR 0xAE, CHR 0x9A]"

definition msg_gemini_unconfigured :: string where
  "msg_gemini_unconfigured =
     ''Gemini API ''
     @ [CHR 0xE6, CHR 0x9C, CHR 0xAA, CHR 0xE9, CHR 0x85, CHR 0x8D, CHR 0xE7, CHR 0xBD, CHR 0xAE, CHR 0xE6, CHR 0x88, CHR 0x96, CHR 0xE4, CHR 0xB8, CHR 0x8D, CHR 0xE5, CHR 0x8F, CHR 0xAF, CHR 0xE7, CHR 0x94, CHR 0xA8]"

definition msg_need_data_url :: string where
  "msg_need_data_url =
     [CHR 0xE8, CHR 0xAB, CHR 0x8B, CHR 0xE6, CHR 0x8F, CHR 0x90, CHR 0xE4, CHR 0xBE, CHR 0x9B]
     @ '' data-url ''
     @ [CHR 0xE5, CHR 0x9C, CHR 0x96, CHR 0xE7, CHR 0x89, CHR 0x87]"

definition msg_no_garment :: string where
  "msg_no_garment =
     [CHR 0xE7, CHR 0x84, CHR 0xA1, CHR 0xE6, CHR 0xB3, CHR 0x95, CHR 0xE5, CHR 0x8F, CHR 0x96, CHR 0xE5, CHR 0xBE, CHR 0x97, CHR 0xE6, CHR 0x9C, CHR 0x8D, CHR 0xE9, CHR 0xA3, CHR 0xBE, CHR 0xE5, CHR 0x8F, CHR 0x83, CHR 0xE8, CHR 0x80, CHR 0x83, CHR 0xE5, CHR 0x9C, CHR 0x96, CHR 0xEF, CHR 0xBC, CHR 0x8C, CHR 0xE8, CHR 0xAB, CHR 0x8B, CHR 0xE7, CHR 0xA2, CHR 0xBA, CHR 0xE8, CHR 0xAA, CHR 0x8D, CHR 0xE5, CHR 0x95, CHR 0x86, CHR 0xE5, CHR 0x93, CHR 0x81, CHR 0xE5, CHR 0x9C, CHR 0x96, CHR 0xE7, CHR 0x89, CHR 0x87]"

definition error_response :: "string \<Rightarrow> pydict" where
  "error_response m = [(''status'', PStr ''error''), (''message'', PStr m)]"

definition processing_response :: "string \<Rightarrow> pyval \<Rightarrow> pydict" where
  "processing_response session_id preview =
     [(''session_id'', PStr session_id), (''status'', PStr ''processing''), (''preview'', preview)]"

definition is_data_image :: "string \<Rightarrow> bool" where
  "is_data_image url = (url \<noteq> [] \<and> prefix ''data:image'' url)"

definition start_tryon_klingai :: "start_env \<Rightarrow> string \<Rightarrow> tryon_request \<Rightarrow> service \<Rightarrow> start_result" where
  "start_tryon_klingai env session_id req svc =
    (if \<not> klingai_present env then
       (Inr (error_response ''KlingAI service not initialized''), None, svc)
     else if \<not> (klingai_access_set env \<and> klingai_secret_set env) then
       (Inr (error_response msg_klingai_keys), None, svc)
     else
       (case user_write env of
          StageValueError m \<Rightarrow> (Inr (error_response m), None, svc)
        | StageException e \<Rightarrow> (Inl e, None, svc)
        | StageOk \<Rightarrow>
            (case garment_stage env of
               StageOk \<Rightarrow>
                 (Inr (processing_response session_id (PStr (user_image_data_url req))),
                  Some (StdJob session_id), svc)
             | StageValueError m \<Rightarrow> (Inr (error_response m), None, svc)
             | StageException m \<Rightarrow> (Inr (error_response m), None, svc))))"

definition start_fallback :: "string \<Rightarrow> tryon_request \<Rightarrow> service \<Rightarrow> start_result" where
  "start_fallback session_id req svc =
    (if is_data_image (user_image_data_url req) then
       (Inr (processing_response session_id (PStr (user_image_data_url req))), None, svc)
     else (Inr (processing_response session_id PNone), None, svc))"

definition start_tryon_gemini :: "start_env \<Rightarrow> string \<Rightarrow> tryon_request \<Rightarrow> service \<Rightarrow> start_result" where
  "start_tryon_gemini env session_id req svc =
    (if gemini_present env \<and> is_data_image (user_image_data_url req) then
       (case user_write env of
          StageValueError m \<Rightarrow> (Inr (error_response m), None, svc)
        | StageException e \<Rightarrow> (Inl e, None, svc)
        | StageOk \<Rightarrow>
            (case garment_stage env of
               StageOk \<Rightarrow>
                 (Inr (processing_response session_id (PStr (user_image_data_url req))),
                  Some (StdJob session_id), svc)
             | StageValueError m \<Rightarrow> (Inr (error_response m), None, svc)
             | StageException m \<Rightarrow> start_fallback session_id req svc))
     else start_fallback session_id req svc)"

definition start_tryon :: "start_env \<Rightarrow> tryon_request \<Rightarrow> service \<Rightarrow> start_result" where
  "start_tryon env req svc =
    (let session_id = session_id_of (clock_ms env) in
     if vendor_setting env = ''KlingAI'' then start_tryon_klingai env session_id req svc
     else start_tryon_gemini env session_id req svc)"

definition start_tryon_advanced :: "start_env \<Rightarrow> tryon_request \<Rightarrow> service \<Rightarrow> start_result" where
  "start_tryon_advanced env req svc =
    (let session_id = session_id_of (clock_ms env) in
     if vendor_setting env = ''KlingAI'' then start_tryon_klingai env session_id req svc
     else if \<not> gemini_present env \<or> \<not> gemini_client env then
       (Inr [(''session_id'', PStr session_id), (''status'', PStr ''error''),
             (''message'', PStr ''Gemini client unavailable'')],
        None,
        svc\<lparr>session_errors := (session_errors svc)(session_id \<mapsto> ''Gemini client unavailable'')\<rparr>)
     else if \<not> is_data_image (user_image_data_url req) then
       (Inr (processing_response session_id PNone), None, svc)
     else
       (case user_write env of
          StageValueError m \<Rightarrow> (Inr (error_response m), None, svc)
        | StageException e \<Rightarrow> (Inl e, None, svc)
        | StageOk \<Rightarrow>
            (case garment_stage env of
               StageOk \<Rightarrow>
                 (Inr (processing_response session_id (PStr (user_image_data_url req))),
                  Some (StdJob session_id), svc)
             | StageValueError m \<Rightarrow> (Inr (error_response m), None, svc)
             | StageException m \<Rightarrow> (Inr (processing_response session_id PNone), None, svc))))"

definition start_tryon_intimate_two_phase ::
    "start_env \<Rightarrow> tryon_request \<Rightarrow> service \<Rightarrow> start_result" where
  "start_tryon_intimate_two_phase env req svc =
    (let session_id = session_id_of (clock_ms env) in
     if vendor_setting env = ''KlingAI'' then start_tryon_klingai env session_id req svc
     else if \<not> gemini_present env \<or> \<not> gemini_client env then
       (Inr [(''session_id'', PStr session_id), (''status'', PStr ''error''),
             (''message'', PStr msg_gemini_unconfigured)],
        None,
        svc\<lparr>session_errors := (session_errors svc)(session_id \<mapsto> msg_gemini_unconfigured_long)\<rparr>)
     else if \<not> is_data_image (user_image_data_url req) then
       (Inr (error_response msg_need_data_url), None, svc)
     else
       (case user_write env of
          StageValueError m \<Rightarrow> (Inr (error_response m), None, svc)
        | StageException e \<Rightarrow> (Inl e, None, svc)
        | StageOk \<Rightarrow>
            (case garment_stage env of
               StageException e \<Rightarrow> (Inl e, None, svc)
             | _ \<Rightarrow>
                 if garment_resolved env then
                   (Inr (processing_response session_id (PStr (user_image_data_url req))),
                    Some (TwoPhaseJob session_id), svc)
                 else
                   (Inr (error_response msg_no_garment), None,
                    svc\<lparr>session_errors := (session_errors svc)(session_id \<mapsto> msg_no_garment)\<rparr>))))"

subsection \<open>The orchestrator with its background threads\<close>

text \<open>
  The service together with the background jobs that were started and have not finished.
  An event is one start call, the end of one running job with what the vendor adapter
  gave it, or one \<open>get_result\<close> call with the outputs directory as it is at that moment.
\<close>

record system =
  sys_service :: service
  running :: "job list"

definition init_system :: system where
  "init_system = \<lparr>sys_service = new_service, running = []\<rparr>"

datatype event =
    EvStart start_env tryon_request
  | EvStartAdvanced start_env tryon_request
  | EvStartTwoPhase start_env tryon_request
  | EvJobDone string vendor_outcome
  | EvTwoPhaseDone string two_phase_outcome
  | EvPoll string outputs_dir

definition after_start :: "start_result \<Rightarrow> system \<Rightarrow> system" where
  "after_start r sys =
    (case r of (resp, j, svc') \<Rightarrow>
       \<lparr>sys_service = svc',
        running = (case j of None \<Rightarrow> running sys | Some jb \<Rightarrow> jb # running sys)\<rparr>)"

fun step :: "event \<Rightarrow> system \<Rightarrow> system" where
  "step (EvStart env req) sys = after_start (start_tryon env req (sys_service sys)) sys"
| "step (EvStartAdvanced env req) sys =
     after_start (start_tryon_advanced env req (sys_service sys)) sys"
| "step (EvStartTwoPhase env req) sys =
     after_start (start_tryon_intimate_two_phase env req (sys_service sys)) sys"
| "step (EvJobDone session_id outcome) sys =
     (if StdJob session_id \<in> set (running sys) then
        \<lparr>sys_service = bg_job session_id outcome (sys_service sys),
         running = remove1 (StdJob session_id) (running sys)\<rparr>
      else sys)"
| "step (EvTwoPhaseDone session_id outcome) sys =
     (if TwoPhaseJob session_id \<in> set (running sys) then
        \<lparr>sys_service = bg_job_two_phase session_id outcome (sys_service sys),
         running = remove1 (TwoPhaseJob session_id) (running sys)\<rparr>
      else sys)"
| "step (EvPoll session_id exists_file) sys =
     sys\<lparr>sys_service := snd (get_result (sys_service sys) exists_file session_id)\<rparr>"

definition run :: "event list \<Rightarrow> system \<Rightarrow> system" where
  "run evs sys = foldl (\<lambda>s e. step e s) sys evs"



definition status_of :: "pydict \<Rightarrow> pyval option" where
  "status_of d = dict_get d ''status''"

section \<open>ROI boxes (\<open>GeminiService\<close>)\<close>

text \<open>
  \<open>_compute_lower_body_roi\<close> and \<open>_compute_upper_body_roi\<close>.  The first four lines of each
  are \<open>int(round(c * w))\<close> in double-precision arithmetic; the model takes that operation
  as the parameter \<open>scale\<close> (\<open>scale c n\<close> is \<open>int(round(c * n))\<close>), so whatever integers
  the floating-point products round to, the clamping that follows is the code's
  (\<open>top\<close> and \<open>bottom\<close> are written \<open>top_y\<close> and \<open>bottom_y\<close>).
  \<open>exact_scale\<close> is the same operation in exact arithmetic, rounding halves to even as
  Python's \<open>round\<close> does.
\<close>

definition compute_lower_body_roi ::
    "(rat \<Rightarrow> int \<Rightarrow> int) \<Rightarrow> int \<Rightarrow> int \<Rightarrow> int \<times> int \<times> int \<times> int" where
  "compute_lower_body_roi scale w h =
    (let left = scale 0.15 w;
         right = scale 0.85 w;
         top_y = scale 0.45 h;
         bottom_y = scale 0.92 h;
         left = max 0 (min left (w - 1));
         right = max (left + 1) (min right w);
         top_y = max 0 (min top_y (h - 1));
         bottom_y = max (top_y + 1) (min bottom_y h)
     in (left, top_y, right, bottom_y))"

definition compute_upper_body_roi ::
    "(rat \<Rightarrow> int \<Rightarrow> int) \<Rightarrow> int \<Rightarrow> int \<Rightarrow> int \<times> int \<times> int \<times> int" where
  "compute_upper_body_roi scale w h =
    (let left = scale 0.1 w;
         right = scale 0.9 w;
         top_y = scale 0.05 h;
         bottom_y = scale 0.55 h;
         left = max 0 (min left (w - 1));
         right = max (left + 1) (min right w);
         top_y = max 0 (min top_y (h - 1));
         bottom_y = max (top_y + 1) (min bottom_y h)
     in (left, top_y, right, bottom_y))"

definition py_round :: "rat \<Rightarrow> int" where
  "py_round x =
    (let f = \<lfloor>x\<rfloor>; d = x - of_int f in
     if d < 1 / 2 then f else if 1 / 2 < d then f + 1 else if even f then f else f + 1)"

definition exact_scale :: "rat \<Rightarrow> int \<Rightarrow> int" where
  "exact_scale c n = py_round (c * of_int n)"

text \<open>The box \<open>(left, top, right, bottom)\<close> lies in a \<open>w\<close> by \<open>h\<close> image and is not empty.\<close>

definition box_within :: "int \<Rightarrow> int \<Rightarrow> int \<times> int \<times> int \<times> int \<Rightarrow> bool" where
  "box_within w h box =
    (case box of (left, top_y, right, bottom_y) \<Rightarrow>
       0 \<le> left \<and> left < right \<and> right \<le> w \<and> 0 \<le> top_y \<and> top_y < bottom_y \<and> bottom_y \<le> h)"

section \<open>Asynchronous vendor (KlingAI)\<close>

subsection \<open>What the vendor answers\<close>

text \<open>
  The JSON of the task endpoints, as far as the pollers read it: the top-level
  \<open>message\<close>, \<open>data.task_status\<close>, \<open>data.task_status_msg\<close> and the \<open>url\<close> of each entry of
  \<open>data.task_result.videos\<close>.  A reply is an exception of the HTTP call (with its text),
  or a status code with a body that parses as JSON or does not.
\<close>

record task_json =
  tj_message :: "string option"
  tj_task_status :: "string option"
  tj_task_status_msg :: "string option"
  tj_video_urls :: "string option list"

datatype poll_body = PollJson task_json | PollJsonError string

datatype poll_reply = PollRaised string | PollReply int poll_body

subsection \<open>Image try-on poller (\<open>KlingAIService._poll_task_result\<close>)\<close>

text \<open>
  The loop runs while \<open>time.time() - start_time < timeout\<close>; the list holds the replies
  of the polls that start before the deadline, in order.  The result is the vendor's JSON
  once the task is done, \<open>None\<close> when it failed or the deadline passed.
\<close>

fun poll_task_result :: "bool \<Rightarrow> poll_reply list \<Rightarrow> task_json option" where
  "poll_task_result requests_lib [] = None"
| "poll_task_result requests_lib (r # rs) =
    (if \<not> requests_lib then None
     else
       (case r of
          PollRaised e \<Rightarrow> poll_task_result requests_lib rs
        | PollReply code body \<Rightarrow>
            if code \<noteq> 200 then poll_task_result requests_lib rs
            else
              (case body of
                 PollJsonError e \<Rightarrow> poll_task_result requests_lib rs
               | PollJson result \<Rightarrow>
                   if tj_task_status result \<in> {Some ''completed'', Some ''succeed'', Some ''success''}
                   then Some result
                   else if tj_task_status result \<in> {Some ''failed'', Some ''error''} then None
                   else poll_task_result requests_lib rs)))"

subsection \<open>Video service (\<open>KlingAIVideoService\<close>)\<close>

text \<open>
  The fields of the service that the two methods read, after
  \<open>_reload_settings_if_changed\<close> has run.
\<close>

record video_service =
  access_key :: "string option"
  secret_key :: "string option"
  model :: string
  mode :: string

text \<open>
  The outside world of the video service: every HTTP request sent (URL and, for a POST,
  the JSON payload) and every file written to the outputs directory (name and content),
  oldest first.
\<close>

datatype http_request = HttpPost string "(string \<times> string) list" | HttpGet string

record world =
  requests_sent :: "http_request list"
  files_written :: "(string \<times> string) list"

definition new_world :: world where
  "new_world = \<lparr>requests_sent = [], files_written = []\<rparr>"

definition api_base_url :: string where
  "api_base_url = ''https://api.klingai.com''"

definition ascii_lower :: "char \<Rightarrow> char" where
  "ascii_lower c =
    (let n = (of_char c :: nat) in if 65 \<le> n \<and> n \<le> 90 then char_of (n + 32) else c)"

fun has_substring :: "string \<Rightarrow> string \<Rightarrow> bool" where
  "has_substring sub [] = (sub = [])"
| "has_substring sub (c # cs) = (prefix sub (c # cs) \<or> has_substring sub cs)"

definition msg_video_timeout :: string where
  "msg_video_timeout =
     ''KlingAI Video API ''
     @ [CHR 0xE8, CHR 0xAB, CHR 0x8B, CHR 0xE6, CHR 0xB1, CHR 0x82, CHR 0xE8, CHR 0xB6, CHR 0x85, CHR 0xE6, CHR 0x99, CHR 0x82]"

definition default_prompt :: string where
  "default_prompt =
     [CHR 0xE8, CHR 0xBA, CHR 0xAB, CHR 0xE9, CHR 0xAB, CHR 0x94, CHR 0xE6, CHR 0x97, CHR 0x8B, CHR 0xE8, CHR 0xBD, CHR 0x89, CHR 0xE4, CHR 0xB8, CHR 0x80, CHR 0xE5, CHR 0x9C, CHR 0x88]"

text \<open>The four-key answer of \<open>generate_video\<close>.\<close>

definition video_error :: "string \<Rightarrow> pydict" where
  "video_error m =
     [(''status'', PStr ''error''), (''task_id'', PNone), (''output_path'', PNone),
      (''message'', PStr m)]"

text \<open>
  What \<open>generate_video\<close> meets: whether the \<open>requests\<close> library was importable, whether
  the image path exists, what \<open>_image_to_base64\<close> returns, and the vendor's reply to the
  POST: a timeout, another exception (type name and text), or a status code with a body
  that parses (top-level \<open>message\<close> and \<open>data.task_id\<close>) or does not.
\<close>

datatype post_body = PostJson (pb_message: "string option") (pb_task_id: "string option")
  | PostJsonError string string

datatype post_reply = PostTimeout | PostRaised string string | PostReply int post_body

record gen_env =
  requests_lib :: bool
  image_exists :: bool
  image_base64 :: "string option"
  post_reply :: post_reply

definition generate_video ::
    "video_service \<Rightarrow> gen_env \<Rightarrow> string \<Rightarrow> string \<Rightarrow> int \<Rightarrow> world \<Rightarrow> pydict \<times> world" where
  "generate_video svc env image_path prompt duration wld =
    (if \<not> truthy (access_key svc) \<or> \<not> truthy (secret_key svc) then
       (video_error ''KlingAI Video API keys not configured'', wld)
     else if \<not> requests_lib env then (video_error ''HTTP library not available'', wld)
     else if \<not> image_exists env then (video_error ''Source image not found'', wld)
     else
       (case image_base64 env of
          None \<Rightarrow> (video_error ''Failed to process image'', wld)
        | Some b64 \<Rightarrow>
            if b64 = [] then (video_error ''Failed to process image'', wld)
            else
              (let payload =
                     [(''model_name'', model svc), (''image'', b64), (''prompt'', prompt),
                      (''duration'', str_int duration)]
                     @ (if \<not> has_substring ''turbo'' (map ascii_lower (model svc))
                        then [(''mode'', mode svc)] else []);
                   api_url = api_base_url @ ''/v1/videos/image2video'';
                   wld' = wld\<lparr>requests_sent := requests_sent wld @ [HttpPost api_url payload]\<rparr>
               in
               (case post_reply env of
                  PostTimeout \<Rightarrow> (video_error msg_video_timeout, wld')
                | PostRaised exc_name exc_text \<Rightarrow>
                    (video_error (exc_name @ '': '' @ exc_text), wld')
                | PostReply code body \<Rightarrow>
                    if code \<noteq> 200 then
                      (case body of
                         PostJson msg task_id \<Rightarrow>
                           (video_error
                              (get_default msg (''KlingAI Video API error: '' @ str_int code)),
                            wld')
                       | PostJsonError exc_name exc_text \<Rightarrow>
                           (video_error (''KlingAI Video API error: '' @ str_int code), wld'))
                    else
                      (case body of
                         PostJsonError exc_name exc_text \<Rightarrow>
                           (video_error (exc_name @ '': '' @ exc_text), wld')
                       | PostJson msg task_id \<Rightarrow>
                           (case task_id of
                              None \<Rightarrow> (video_error ''No task ID returned from API'', wld')
                            | Some tid \<Rightarrow>
                                if tid = [] then
                                  (video_error ''No task ID returned from API'', wld')
                                else
                                  ([(''status'', PStr ''processing''), (''task_id'', PStr tid),
                                    (''output_path'', PNone),
                                    (''message'', PStr ''Video generation started'')],
                                   wld')))))))"

text \<open>
  What \<open>poll_video_task\<close> meets: the library flag, the clock in whole milliseconds when
  the output file is named (\<open>int(time.time()*1000)\<close>), the vendor's reply to the status
  request, and the reply to the download of the video (an exception with its text, or a
  status code with the content).
\<close>

datatype download_reply = DownloadRaised string | Download int string

record vpoll_env =
  vp_requests_lib :: bool
  vp_clock_ms :: int
  vp_reply :: poll_reply
  vp_download :: download_reply

definition poll_answer :: "string \<Rightarrow> pyval \<Rightarrow> pyval \<Rightarrow> pydict" where
  "poll_answer st out msg = [(''status'', PStr st), (''output_path'', out), (''message'', msg)]"

text \<open>\<open>f"{x}"\<close> for an optional string.\<close>

fun fmt_opt :: "string option \<Rightarrow> string" where
  "fmt_opt None = ''None''"
| "fmt_opt (Some s) = s"

definition poll_video_task ::
    "video_service \<Rightarrow> vpoll_env \<Rightarrow> string \<Rightarrow> world \<Rightarrow> pydict \<times> world" where
  "poll_video_task svc env task_id wld =
    (if \<not> vp_requests_lib env then
       (poll_answer ''error'' PNone (PStr ''HTTP library not available''), wld)
     else if \<not> truthy (access_key svc) \<or> \<not> truthy (secret_key svc) then
       (poll_answer ''error'' PNone (PStr ''API keys not configured''), wld)
     else
       (let api_url = api_base_url @ ''/v1/videos/image2video/'' @ task_id;
            wld1 = wld\<lparr>requests_sent := requests_sent wld @ [HttpGet api_url]\<rparr>
        in
        (case vp_reply env of
           PollRaised e \<Rightarrow> (poll_answer ''error'' PNone (PStr e), wld1)
         | PollReply code body \<Rightarrow>
             if code \<noteq> 200 then
               (case body of
                  PollJson error_data \<Rightarrow>
                    (poll_answer ''error'' PNone
                       (PStr (get_default (tj_message error_data) ''Polling failed'')), wld1)
                | PollJsonError e \<Rightarrow>
                    (poll_answer ''error'' PNone (PStr (''HTTP '' @ str_int code)), wld1))
             else
               (case body of
                  PollJsonError e \<Rightarrow> (poll_answer ''error'' PNone (PStr e), wld1)
                | PollJson data \<Rightarrow>
                    if tj_task_status data \<in> {Some ''succeed'', Some ''success''} then
                      (case tj_video_urls data of
                         Some video_url # other_videos \<Rightarrow>
                           if video_url \<noteq> [] then
                             (let output_filename = ''video_'' @ str_int (vp_clock_ms env) @ ''.mp4'';
                                  public_path = ''/static/outputs/'' @ output_filename;
                                  wld2 = wld1\<lparr>requests_sent := requests_sent wld1 @ [HttpGet video_url]\<rparr>
                              in
                              (case vp_download env of
                                 DownloadRaised e \<Rightarrow> (poll_answer ''error'' PNone (PStr e), wld2)
                               | Download dcode content \<Rightarrow>
                                   if dcode = 200 then
                                     (poll_answer ''completed'' (PStr public_path) PNone,
                                      wld2\<lparr>files_written :=
                                              files_written wld2 @ [(output_filename, content)]\<rparr>)
                                   else
                                     (poll_answer ''error'' PNone
                                        (PStr (''Failed to download video: HTTP '' @ str_int dcode)),
                                      wld2)))
                           else
                             (poll_answer ''error'' PNone (PStr ''No video URL in response''), wld1)
                       | _ \<Rightarrow>
                           (poll_answer ''error'' PNone (PStr ''No video URL in response''), wld1))
                    else if tj_task_status data \<in> {Some ''failed'', Some ''error''} then
                      (poll_answer ''failed'' PNone
                         (PStr (py_or (tj_task_status_msg data) ''Video generation failed'')), wld1)
                    else if tj_task_status data
                              \<in> {Some ''processing'', Some ''submitted'', Some ''pending''} then
                      (poll_answer ''processing'' PNone (PStr ''Video is being generated...''), wld1)
                    else
                      (poll_answer ''unknown'' PNone
                         (PStr (''Unknown status: '' @ fmt_opt (tj_task_status data))), wld1)))))"

text \<open>
  Polling the same task repeatedly: one \<open>poll_video_task\<close> call per environment, the
  world threaded through; the answers are collected in order.
\<close>

fun poll_repeatedly ::
    "video_service \<Rightarrow> vpoll_env list \<Rightarrow> string \<Rightarrow> world \<Rightarrow> pydict list \<times> world" where
  "poll_repeatedly svc [] task_id wld = ([], wld)"
| "poll_repeatedly svc (env # envs) task_id wld =
    (case poll_video_task svc env task_id wld of
       (answer, wld') \<Rightarrow>
         (case poll_repeatedly svc envs task_id wld' of
            (answers, wld'') \<Rightarrow> (answer # answers, wld'')))"

subsection \<open>The HTTP route \<open>POST /api/video/generate\<close>\<close>

text \<open>
  The JSON payload of the request, the route of \<open>routes/api.py\<close> and, between the route
  and the service, \<open>LiveDemoVideoService.generate_video\<close>, which passes its arguments on
  unchanged.  The route answers with a body and an HTTP status code.
\<close>

record video_payload =
  pl_image_path :: "string option"
  pl_prompt :: "string option"
  pl_duration :: "int option"

definition msg_need_image_path :: string where
  "msg_need_image_path =
     [CHR 0xE8, CHR 0xAB, CHR 0x8B, CHR 0xE6, CHR 0x8F, CHR 0x90, CHR 0xE4, CHR 0xBE, CHR 0x9B, CHR 0xE6, CHR 0x8F, CHR 0x9B, CHR 0xE9, CHR 0xAB, CHR 0xAE, CHR 0xE5, CHR 0x9E, CHR 0x8B, CHR 0xE7, CHR 0xB5, CHR 0x90, CHR 0xE6, CHR 0x9E, CHR 0x9C, CHR 0xE5, CHR 0x9C, CHR 0x96, CHR 0xE7, CHR 0x89, CHR 0x87, CHR 0xE8, CHR 0xB7, CHR 0xAF, CHR 0xE5, CHR 0xBE, CHR 0x91]"

definition msg_image_not_found :: string where
  "msg_image_not_found =
     [CHR 0xE6, CHR 0x89, CHR 0xBE, CHR 0xE4, CHR 0xB8, CHR 0x8D, CHR 0xE5, CHR 0x88, CHR 0xB0, CHR 0xE6, CHR 0x8F, CHR 0x9B, CHR 0xE9, CHR 0xAB, CHR 0xAE, CHR 0xE5, CHR 0x9E, CHR 0x8B, CHR 0xE7, CHR 0xB5, CHR 0x90, CHR 0xE6, CHR 0x9E, CHR 0x9C, CHR 0xE5, CHR 0x9C, CHR 0x96, CHR 0xE7, CHR 0x89, CHR 0x87]"

definition msg_video_failed :: string where
  "msg_video_failed =
     [CHR 0xE5, CHR 0xBD, CHR 0xB1, CHR 0xE7, CHR 0x89, CHR 0x87, CHR 0xE7, CHR 0x94, CHR 0x9F, CHR 0xE6, CHR 0x88, CHR 0x90, CHR 0xE5, CHR 0xA4, CHR 0xB1, CHR 0xE6, CHR 0x95, CHR 0x97]"

definition resolve_image_path :: "string \<Rightarrow> string \<Rightarrow> string" where
  "resolve_image_path demo_root image_path =
    (if prefix ''/'' image_path then
       (let rel_path = dropWhile (\<lambda>c. c = CHR ''/'') image_path in
        if prefix ''static/'' rel_path then demo_root @ ''/'' @ rel_path
        else demo_root @ ''/static/'' @ rel_path)
     else image_path)"

fun message_of :: "pydict \<Rightarrow> string \<Rightarrow> pyval" where
  "message_of d dflt = (case dict_get d ''message'' of None \<Rightarrow> PStr dflt | Some v \<Rightarrow> v)"

definition api_generate_video ::
    "video_service \<Rightarrow> gen_env \<Rightarrow> string \<Rightarrow> video_payload \<Rightarrow> world \<Rightarrow> (pydict \<times> int) \<times> world" where
  "api_generate_video svc env demo_root payload wld =
    (let prompt = (case pl_prompt payload of None \<Rightarrow> default_prompt | Some p \<Rightarrow> p);
         duration = (case pl_duration payload of None \<Rightarrow> 5 | Some d \<Rightarrow> d)
     in
     (case pl_image_path payload of
        None \<Rightarrow> (([(''error'', PStr msg_need_image_path)], 400), wld)
      | Some image_path \<Rightarrow>
          if image_path = [] then (([(''error'', PStr msg_need_image_path)], 400), wld)
          else
            (let abs_path = resolve_image_path demo_root image_path in
             if \<not> image_exists env then (([(''error'', PStr msg_image_not_found)], 404), wld)
             else
               (case generate_video svc env abs_path prompt duration wld of
                  (result, wld') \<Rightarrow>
                    if dict_get result ''status'' = Some (PStr ''error'') then
                      (([(''error'', message_of result msg_video_failed)], 500), wld')
                    else ((result, 200), wld')))))"

section \<open>Auxiliary notions for the properties\<close>

text \<open>
  A session is terminal in the tables when \<open>get_result\<close> can no longer answer \<open>pending\<close>
  for it: the identifier is empty, a truthy error is stored, or an output is stored.
  It is errored when the answer is an error whatever else is stored.
\<close>

definition errored_for :: "service \<Rightarrow> string \<Rightarrow> bool" where
  "errored_for svc session_id = (session_id = [] \<or> truthy (session_errors svc session_id))"

definition terminal_for :: "service \<Rightarrow> string \<Rightarrow> bool" where
  "terminal_for svc session_id =
     (errored_for svc session_id \<or> session_outputs svc session_id \<noteq> None)"

text \<open>
  The error table is well formed when no key and no message is the empty string, and
  the running jobs serve non-empty session identifiers.
\<close>

fun job_session :: "job \<Rightarrow> string" where
  "job_session (StdJob session_id) = session_id"
| "job_session (TwoPhaseJob session_id) = session_id"

definition errors_wf :: "system \<Rightarrow> bool" where
  "errors_wf sys =
     ((\<forall>k m. session_errors (sys_service sys) k = Some m \<longrightarrow> k \<noteq> [] \<and> m \<noteq> [])
      \<and> (\<forall>j \<in> set (running sys). job_session j \<noteq> []))"

text \<open>
  The most one operation on behalf of a session does to the tables: entries of other
  sessions stay; the session's output stays or is set; the session's error stays or
  becomes a non-empty message.
\<close>

definition table_write :: "service \<Rightarrow> string \<Rightarrow> service \<Rightarrow> bool" where
  "table_write svc session_id svc' =
     ((\<forall>k. k \<noteq> session_id \<longrightarrow>
          session_outputs svc' k = session_outputs svc k
          \<and> session_errors svc' k = session_errors svc k)
      \<and> (session_outputs svc' session_id = session_outputs svc session_id
           \<or> session_outputs svc' session_id \<noteq> None)
      \<and> (session_errors svc' session_id = session_errors svc session_id
           \<or> truthy (session_errors svc' session_id)))"

text \<open>
  A poll environment in which the vendor reports the task as succeeded with the video at
  \<open>url\<close>, and the download of that URL answers 200.
\<close>

definition reports_success :: "string \<Rightarrow> vpoll_env \<Rightarrow> bool" where
  "reports_success url env =
     (vp_requests_lib env \<and> url \<noteq> []
      \<and> (case vp_reply env of
            PollReply code (PollJson data) \<Rightarrow>
              code = 200
              \<and> tj_task_status data \<in> {Some ''succeed'', Some ''success''}
              \<and> (case tj_video_urls data of
                     Some video_url # other_videos \<Rightarrow> video_url = url
                   | _ \<Rightarrow> False)
          | _ \<Rightarrow> False)
      \<and> (case vp_download env of
            Download code content \<Rightarrow> code = 200
          | DownloadRaised e \<Rightarrow> False))"

fun download_content :: "vpoll_env \<Rightarrow> string" where
  "download_content env =
     (case vp_download env of Download code content \<Rightarrow> content | DownloadRaised e \<Rightarrow> [])"

definition video_file_name :: "vpoll_env \<Rightarrow> string" where
  "video_file_name env = ''video_'' @ str_int (vp_clock_ms env) @ ''.mp4''"

text \<open>The checks \<open>generate_video\<close> makes before it builds the request.\<close>

definition gen_checks_pass :: "video_service \<Rightarrow> gen_env \<Rightarrow> bool" where
  "gen_checks_pass svc env =
     (truthy (access_key svc) \<and> truthy (secret_key svc) \<and> requests_lib env
      \<and> image_exists env \<and> truthy (image_base64 env))"

section \<open>Concrete inputs\<close>

definition demo_env :: start_env where
  "demo_env =
     \<lparr>clock_ms = 1700000000123, vendor_setting = ''Gemini'', gemini_present = True,
      gemini_client = True, klingai_present = True, klingai_access_set = False,
      klingai_secret_set = False, user_write = StageOk, garment_stage = StageOk,
      garment_resolved = True\<rparr>"

definition demo_sid :: string where
  "demo_sid = ''tryon_1700000000123''"

definition demo_request :: tryon_request where
  "demo_request =
     \<lparr>user_image_data_url = ''data:image/jpeg;base64,AAAA'',
      garment_image_url = Some ''/static/garments/bob.jpg'', user_note = None\<rparr>"

definition other_request :: tryon_request where
  "other_request =
     \<lparr>user_image_data_url = ''data:image/jpeg;base64,BBBB'',
      garment_image_url = Some ''/static/garments/pixie.jpg'', user_note = Some ''shorter''\<rparr>"

definition vendor_ok :: vendor_outcome where
  "vendor_ok = Returned (Some ''ok'') (Some ''/static/outputs/gen_1700000004567.jpg'') None"

definition vendor_refused :: vendor_outcome where
  "vendor_refused = Returned (Some ''error'') None (Some ''blocked by safety filter'')"

text \<open>
  Two requests accepted within the same millisecond share a session identifier; the job
  of the first succeeds, then the job of the second is refused.
\<close>

definition collision_start :: "event list" where
  "collision_start = [EvStart demo_env demo_request, EvStart demo_env other_request]"

definition race_trace :: "event list" where
  "race_trace = collision_start @ [EvJobDone demo_sid vendor_ok, EvJobDone demo_sid vendor_refused]"


definition no_files :: outputs_dir where
  "no_files = (\<lambda>fname. False)"

definition session_file_present :: outputs_dir where
  "session_file_present = (\<lambda>fname. fname = ''tryon_1700000000123.jpg'')"



definition later_env :: start_env where
  "later_env = demo_env\<lparr>clock_ms := 1700000000124\<rparr>"

definition demo_video_service :: video_service where
  "demo_video_service =
     \<lparr>access_key = Some ''ak'', secret_key = Some ''sk'', model = ''kling-v1'', mode = ''std''\<rparr>"

definition demo_gen_env :: gen_env where
  "demo_gen_env =
     \<lparr>requests_lib = True, image_exists = True, image_base64 = Some ''aGVsbG8='',
      post_reply = PostReply 200 (PostJson None (Some ''T1''))\<rparr>"

definition demo_video_payload :: video_payload where
  "demo_video_payload =
     \<lparr>pl_image_path = Some ''/static/outputs/gen_1700000004567.jpg'',
      pl_prompt = Some ''turn the head slowly'', pl_duration = Some 7\<rparr>"

definition task_with_status :: "string \<Rightarrow> task_json" where
  "task_with_status st =
     \<lparr>tj_message = None, tj_task_status = Some st, tj_task_status_msg = None,
      tj_video_urls = [Some ''https://cdn.example/v.mp4'']\<rparr>"

definition poll_env_at :: "int \<Rightarrow> string \<Rightarrow> vpoll_env" where
  "poll_env_at ms st =
     \<lparr>vp_requests_lib = True, vp_clock_ms = ms,
      vp_reply = PollReply 200 (PollJson (task_with_status st)),
      vp_download = Download 200 ''mp4-bytes''\<rparr>"

section \<open>Decimal rendering is injective\<close>

lemma digit_val_digit_char: "d < 10 \<Longrightarrow> digit_val (digit_char d) = d"
proof -
  assume "d < 10"
  then have "d = 0 \<or> d = 1 \<or> d = 2 \<or> d = 3 \<or> d = 4 \<or> d = 5 \<or> d = 6 \<or> d = 7
    \<or> d = 8 \<or> d = 9" by arith
  then show ?thesis
    by (auto simp add: digit_val_def digit_char_def)
qed

lemma nat_of_digits_snoc: "nat_of_digits (s @ [c]) = 10 * nat_of_digits s + digit_val c"
  by (simp add: nat_of_digits_def)

lemma nat_of_digits_str_nat: "nat_of_digits (str_nat n) = n"
proof (induction n rule: str_nat.induct)
  case (1 n)
  show ?case
  proof (cases "n < 10")
    case True
    then show ?thesis
      by (subst str_nat.simps) (simp add: nat_of_digits_def digit_val_digit_char)
  next
    case False
    with 1 have ih: "nat_of_digits (str_nat (n div 10)) = n div 10" by simp
    have "str_nat n = str_nat (n div 10) @ [digit_char (n mod 10)]"
      using False by (subst str_nat.simps) simp
    then show ?thesis
      by (simp add: nat_of_digits_snoc ih digit_val_digit_char)
  qed
qed

lemma digit_char_not_minus: "d < 10 \<Longrightarrow> digit_char d \<noteq> CHR ''-''"
proof -
  assume "d < 10"
  then have "d = 0 \<or> d = 1 \<or> d = 2 \<or> d = 3 \<or> d = 4 \<or> d = 5 \<or> d = 6 \<or> d = 7
    \<or> d = 8 \<or> d = 9" by arith
  then show ?thesis
    by (auto simp add: digit_char_def)
qed

lemma str_nat_hd: "\<exists>c cs. str_nat n = c # cs \<and> c \<noteq> CHR ''-''"
proof (induction n rule: str_nat.induct)
  case (1 n)
  show ?case
  proof (cases "n < 10")
    case True
    then show ?thesis
      by (subst str_nat.simps) (simp add: digit_char_not_minus)
  next
    case False
    with 1 obtain c cs where "str_nat (n div 10) = c # cs" "c \<noteq> CHR ''-''" by auto
    then show ?thesis
      using False by (subst str_nat.simps) simp
  qed
qed

lemma int_of_str_str_int: "int_of_str (str_int i) = i"
proof (cases "i < 0")
  case True
  then show ?thesis
    by (simp add: int_of_str_def str_int_def nat_of_digits_str_nat)
next
  case False
  obtain c cs where h: "str_nat (nat i) = c # cs" "c \<noteq> CHR ''-''"
    using str_nat_hd by blast
  have "nat_of_digits (c # cs) = nat i"
    using nat_of_digits_str_nat [of "nat i"] h by simp
  then show ?thesis
    using False h by (simp add: int_of_str_def str_int_def)
qed

lemma str_int_inject: "str_int a = str_int b \<longleftrightarrow> a = b"
  by (metis int_of_str_str_int)

lemma session_id_of_inject: "session_id_of a = session_id_of b \<longleftrightarrow> a = b"
  by (simp add: session_id_of_def str_int_inject)

lemma session_id_of_nonempty: "session_id_of ms \<noteq> []"
  by (simp add: session_id_of_def)

section \<open>Evaluating the model on concrete inputs\<close>

lemma demo_sid_eq: "session_id_of 1700000000123 = demo_sid"
  by (simp add: session_id_of_def str_int_def str_nat.simps digit_char_def demo_sid_def)

lemma run_Nil: "run [] sys = sys"
  by (simp add: run_def)

lemma run_Cons: "run (e # evs) sys = run evs (step e sys)"
  by (simp add: run_def)

lemma run_append: "run (evs @ evs') sys = run evs' (run evs sys)"
  by (simp add: run_def)

lemma start_demo:
  "start_tryon demo_env demo_request svc =
     (Inr (processing_response demo_sid (PStr ''data:image/jpeg;base64,AAAA'')),
      Some (StdJob demo_sid), svc)"
  by (simp add: start_tryon_def start_tryon_gemini_def demo_env_def demo_request_def
      is_data_image_def demo_sid_eq Let_def)

lemma start_other:
  "start_tryon demo_env other_request svc =
     (Inr (processing_response demo_sid (PStr ''data:image/jpeg;base64,BBBB'')),
      Some (StdJob demo_sid), svc)"
  by (simp add: start_tryon_def start_tryon_gemini_def demo_env_def other_request_def
      is_data_image_def demo_sid_eq Let_def)

section \<open>Properties of \<open>get_result\<close>\<close>



text \<open>
  Claim C10, as amended.  For a non-empty session identifier with no error recorded and
  no output recorded, if the file \<open><session_id>.jpg\<close> exists in the outputs directory then
  \<open>get_result\<close> stores \<open>session_id \<mapsto> /static/outputs/<session_id>.jpg\<close> in the success
  table and answers \<open>ok\<close> with that path; the error table and every other entry of the
  success table stay as they were.
\<close>

theorem get_result_file_fallback:
  assumes "session_id \<noteq> []"
    and "session_errors svc session_id = None"
    and "session_outputs svc session_id = None"
    and "exists_file (session_id @ ''.jpg'')"
  shows "get_result svc exists_file session_id =
     ([(''status'', PStr ''ok''), (''output'', PStr (''/static/outputs/'' @ session_id @ ''.jpg''))],
      svc\<lparr>session_outputs :=
            (session_outputs svc)(session_id \<mapsto> ''/static/outputs/'' @ session_id @ ''.jpg'')\<rparr>)
    \<and> session_errors (snd (get_result svc exists_file session_id)) = session_errors svc
    \<and> (\<forall>k. k \<noteq> session_id \<longrightarrow>
          session_outputs (snd (get_result svc exists_file session_id)) k = session_outputs svc k)"
  using assms by (simp add: get_result_def get_result_lookup_def Let_def)

theorem get_result_file_fallback_witness:
  "demo_sid \<noteq> [] \<and> session_errors new_service demo_sid = None
   \<and> session_outputs new_service demo_sid = None
   \<and> session_file_present (demo_sid @ ''.jpg'')
   \<and> get_result new_service session_file_present demo_sid =
     ([(''status'', PStr ''ok''), (''output'', PStr ''/static/outputs/tryon_1700000000123.jpg'')],
      new_service\<lparr>session_outputs :=
            (session_outputs new_service)(demo_sid \<mapsto> ''/static/outputs/tryon_1700000000123.jpg'')\<rparr>)"
  using get_result_file_fallback [of demo_sid new_service session_file_present]
  by (simp add: new_service_def session_file_present_def demo_sid_def)

text \<open>
  Claim C10 as stated fails when the success table already holds an output for the
  session: after a start call and a successful background job, with no error recorded
  and the file \<open><session_id>.jpg\<close> present, \<open>get_result\<close> answers with the stored output
  and does not write the file's path.
\<close>

theorem memo_hides_file_counterexample:
  "session_errors (sys_service (run [EvStart demo_env demo_request, EvJobDone demo_sid vendor_ok] init_system)) demo_sid = None
   \<and> session_file_present (demo_sid @ ''.jpg'')
   \<and> fst (get_result (sys_service (run [EvStart demo_env demo_request, EvJobDone demo_sid vendor_ok] init_system)) session_file_present demo_sid)
       = [(''status'', PStr ''ok''), (''output'', PStr ''/static/outputs/gen_1700000004567.jpg'')]
   \<and> session_outputs (snd (get_result (sys_service (run [EvStart demo_env demo_request, EvJobDone demo_sid vendor_ok] init_system)) session_file_present demo_sid)) demo_sid
       \<noteq> Some ''/static/outputs/tryon_1700000000123.jpg''"
  by (simp add: run_Cons run_Nil start_demo after_start_def init_system_def new_service_def
      bg_job_def vendor_ok_def get_result_def get_result_lookup_def session_file_present_def
      demo_sid_def)

text \<open>
  Claim C6, as amended.  Every answer of \<open>get_result\<close> has a status among \<open>pending\<close>,
  \<open>ok\<close> and \<open>error\<close>, and the status is \<open>pending\<close> exactly for a non-empty session
  identifier with no truthy error, no recorded output and no output file: a session that
  is not yet terminal is reported as \<open>pending\<close>.
\<close>

theorem get_result_status_values:
  "status_of (fst (get_result svc exists_file session_id))
      \<in> {Some (PStr ''pending''), Some (PStr ''ok''), Some (PStr ''error'')}
   \<and> (status_of (fst (get_result svc exists_file session_id)) = Some (PStr ''pending'')
        \<longleftrightarrow> session_id \<noteq> [] \<and> \<not> truthy (session_errors svc session_id)
            \<and> session_outputs svc session_id = None \<and> \<not> exists_file (session_id @ ''.jpg''))"
  by (auto simp add: get_result_def get_result_lookup_def status_of_def dict_get_def Let_def
      split: option.splits)

theorem get_result_status_values_witness:
  "status_of (fst (get_result new_service no_files demo_sid)) = Some (PStr ''pending'')
   \<and> status_of (fst (get_result new_service session_file_present demo_sid)) = Some (PStr ''ok'')
   \<and> status_of (fst (get_result new_service no_files [])) = Some (PStr ''error'')"
proof -
  have "status_of (fst (get_result new_service no_files demo_sid)) = Some (PStr ''pending'')"
    using get_result_status_values [of new_service no_files demo_sid]
    by (simp add: new_service_def no_files_def demo_sid_def)
  moreover have "status_of (fst (get_result new_service session_file_present demo_sid))
      = Some (PStr ''ok'')"
    by (simp add: get_result_def get_result_lookup_def new_service_def session_file_present_def
        demo_sid_def status_of_def dict_get_def Let_def)
  moreover have "status_of (fst (get_result new_service no_files [])) = Some (PStr ''error'')"
    by (simp add: get_result_def status_of_def dict_get_def)
  ultimately show ?thesis by simp
qed

text \<open>
  Claim C6 as stated fails: a start call accepts a request, answers \<open>processing\<close> and
  starts the background job; while the job runs \<open>get_result\<close> for that session answers
  \<open>pending\<close>, not \<open>processing\<close>.
\<close>

theorem accepted_session_pending_counterexample:
  "fst (start_tryon demo_env demo_request new_service)
     = Inr [(''session_id'', PStr demo_sid), (''status'', PStr ''processing''),
            (''preview'', PStr ''data:image/jpeg;base64,AAAA'')]
   \<and> running (run [EvStart demo_env demo_request] init_system) = [StdJob demo_sid]
   \<and> fst (get_result (sys_service (run [EvStart demo_env demo_request] init_system)) no_files demo_sid)
       = [(''status'', PStr ''pending'')]
   \<and> status_of (fst (get_result (sys_service (run [EvStart demo_env demo_request] init_system)) no_files demo_sid))
       \<noteq> Some (PStr ''processing'')"
  by (simp add: run_Cons run_Nil start_demo after_start_def init_system_def new_service_def
      get_result_def get_result_lookup_def no_files_def demo_sid_def processing_response_def
      status_of_def dict_get_def)

section \<open>The session tables along a run\<close>

subsection \<open>What each operation does to the tables\<close>

lemma py_or_nonempty: "d \<noteq> [] \<Longrightarrow> py_or m d \<noteq> []"
  by (cases m) auto

lemma table_write_refl: "table_write svc sid svc"
  by (simp add: table_write_def)

lemma start_tryon_klingai_service: "snd (snd (start_tryon_klingai env sid req svc)) = svc"
  by (simp add: start_tryon_klingai_def split: stage_outcome.splits)

lemma start_tryon_klingai_job:
  "fst (snd (start_tryon_klingai env sid req svc)) \<in> {None, Some (StdJob sid)}"
  by (simp add: start_tryon_klingai_def split: stage_outcome.splits)

lemma start_tryon_service: "snd (snd (start_tryon env req svc)) = svc"
  by (simp add: start_tryon_def start_tryon_gemini_def start_fallback_def
      start_tryon_klingai_service Let_def split: stage_outcome.splits)

lemma start_tryon_job:
  "fst (snd (start_tryon env req svc)) \<in> {None, Some (StdJob (session_id_of (clock_ms env)))}"
  using start_tryon_klingai_job [of env "session_id_of (clock_ms env)" req svc]
  by (simp add: start_tryon_def start_tryon_gemini_def start_fallback_def Let_def
      split: stage_outcome.splits)

lemma msg_gemini_unconfigured_long_nonempty: "msg_gemini_unconfigured_long \<noteq> []"
  by (simp add: msg_gemini_unconfigured_long_def)

lemma msg_no_garment_nonempty: "msg_no_garment \<noteq> []"
  by (simp add: msg_no_garment_def)

lemma start_tryon_advanced_service:
  "table_write svc (session_id_of (clock_ms env)) (snd (snd (start_tryon_advanced env req svc)))"
  by (simp add: start_tryon_advanced_def start_tryon_klingai_service Let_def table_write_def
      split: stage_outcome.splits)

lemma start_tryon_advanced_job:
  "fst (snd (start_tryon_advanced env req svc))
     \<in> {None, Some (StdJob (session_id_of (clock_ms env)))}"
  using start_tryon_klingai_job [of env "session_id_of (clock_ms env)" req svc]
  by (simp add: start_tryon_advanced_def Let_def split: stage_outcome.splits)

lemma start_two_phase_service:
  "table_write svc (session_id_of (clock_ms env))
     (snd (snd (start_tryon_intimate_two_phase env req svc)))"
  using msg_gemini_unconfigured_long_nonempty msg_no_garment_nonempty
  by (simp add: start_tryon_intimate_two_phase_def start_tryon_klingai_service Let_def
      table_write_def split: stage_outcome.splits)

lemma start_two_phase_job:
  "fst (snd (start_tryon_intimate_two_phase env req svc))
     \<in> {None, Some (StdJob (session_id_of (clock_ms env))),
         Some (TwoPhaseJob (session_id_of (clock_ms env)))}"
  using start_tryon_klingai_job [of env "session_id_of (clock_ms env)" req svc]
  by (auto simp add: start_tryon_intimate_two_phase_def Let_def split: stage_outcome.splits)

lemma bg_job_service: "table_write svc sid (bg_job sid outcome svc)"
  by (cases outcome)
    (simp_all add: bg_job_def table_write_def py_or_nonempty split: option.splits)

lemma bg_job_two_phase_service: "table_write svc sid (bg_job_two_phase sid outcome svc)"
  by (cases outcome) (simp_all add: bg_job_two_phase_def table_write_def py_or_nonempty)


lemma get_result_errors: "session_errors (snd (get_result svc ef sid)) = session_errors svc"
  by (simp add: get_result_def get_result_lookup_def Let_def split: option.splits)

lemma after_start_service: "sys_service (after_start r sys) = snd (snd r)"
  by (simp add: after_start_def split: prod.splits)

lemma after_start_running:
  "running (after_start r sys)
     = (case fst (snd r) of None \<Rightarrow> running sys | Some jb \<Rightarrow> jb # running sys)"
  by (simp add: after_start_def split: prod.splits)


subsection \<open>The error table stays well formed\<close>

lemma errors_wf_init: "errors_wf init_system"
  by (simp add: errors_wf_def init_system_def new_service_def)

lemma running_after_start_nonempty:
  assumes "fst (snd r)
      \<in> {None, Some (StdJob (session_id_of ms)), Some (TwoPhaseJob (session_id_of ms))}"
    and "\<forall>jb \<in> set (running sys). job_session jb \<noteq> []"
  shows "\<forall>jb \<in> set (running (after_start r sys)). job_session jb \<noteq> []"
  using assms by (auto simp add: after_start_running session_id_of_nonempty)

lemma table_write_errors_wf:
  assumes "table_write svc sid svc'" and "sid \<noteq> []"
    and "\<forall>k m. session_errors svc k = Some m \<longrightarrow> k \<noteq> [] \<and> m \<noteq> []"
  shows "\<forall>k m. session_errors svc' k = Some m \<longrightarrow> k \<noteq> [] \<and> m \<noteq> []"
proof (intro allI impI)
  fix k m
  assume km: "session_errors svc' k = Some m"
  show "k \<noteq> [] \<and> m \<noteq> []"
  proof (cases "k = sid")
    case True
    from assms(1) have "session_errors svc' sid = session_errors svc sid
        \<or> truthy (session_errors svc' sid)"
      by (simp add: table_write_def)
    then show ?thesis
    proof
      assume "session_errors svc' sid = session_errors svc sid"
      with km True have "session_errors svc k = Some m" by simp
      with assms(3) show ?thesis by blast
    next
      assume "truthy (session_errors svc' sid)"
      with km True assms(2) show ?thesis by simp
    qed
  next
    case False
    with assms(1) have "session_errors svc k = session_errors svc' k"
      by (simp add: table_write_def)
    with km have "session_errors svc k = Some m" by simp
    with assms(3) show ?thesis by blast
  qed
qed

lemma errors_wf_start:
  assumes wf: "errors_wf sys"
    and tw: "table_write (sys_service sys) (session_id_of ms) (snd (snd r))"
    and jb: "fst (snd r)
      \<in> {None, Some (StdJob (session_id_of ms)), Some (TwoPhaseJob (session_id_of ms))}"
  shows "errors_wf (after_start r sys)"
proof -
  from wf have tab: "\<forall>k m. session_errors (sys_service sys) k = Some m \<longrightarrow> k \<noteq> [] \<and> m \<noteq> []"
    and jobs: "\<forall>jb \<in> set (running sys). job_session jb \<noteq> []"
    by (simp_all add: errors_wf_def)
  have "\<forall>k m. session_errors (snd (snd r)) k = Some m \<longrightarrow> k \<noteq> [] \<and> m \<noteq> []"
    by (rule table_write_errors_wf [OF tw session_id_of_nonempty tab])
  moreover have "\<forall>jb \<in> set (running (after_start r sys)). job_session jb \<noteq> []"
    by (rule running_after_start_nonempty [OF jb jobs])
  ultimately show ?thesis
    by (simp add: errors_wf_def after_start_service)
qed

lemma errors_wf_job_done:
  assumes wf: "errors_wf sys" and mem: "j \<in> set (running sys)"
    and tw: "table_write (sys_service sys) (job_session j) svc'"
  shows "errors_wf \<lparr>sys_service = svc', running = remove1 j (running sys)\<rparr>"
proof -
  from wf have tab: "\<forall>k m. session_errors (sys_service sys) k = Some m \<longrightarrow> k \<noteq> [] \<and> m \<noteq> []"
    and jobs: "\<forall>jb \<in> set (running sys). job_session jb \<noteq> []"
    by (simp_all add: errors_wf_def)
  from jobs mem have ne: "job_session j \<noteq> []" by blast
  have "\<forall>k m. session_errors svc' k = Some m \<longrightarrow> k \<noteq> [] \<and> m \<noteq> []"
    by (rule table_write_errors_wf [OF tw ne tab])
  moreover have "\<forall>jb \<in> set (remove1 j (running sys)). job_session jb \<noteq> []"
    using jobs by (auto dest: notin_set_remove1)
  ultimately show ?thesis
    by (simp add: errors_wf_def)
qed

lemma errors_wf_step: "errors_wf sys \<Longrightarrow> errors_wf (step e sys)"
proof -
  assume wf: "errors_wf sys"
  show ?thesis
  proof (cases e)
    case (EvStart env req)
    have "errors_wf (after_start (start_tryon env req (sys_service sys)) sys)"
      using start_tryon_job [of env req "sys_service sys"]
      by (intro errors_wf_start [OF wf, of "clock_ms env"])
        (auto simp add: start_tryon_service table_write_refl)
    with EvStart show ?thesis by simp
  next
    case (EvStartAdvanced env req)
    have "errors_wf (after_start (start_tryon_advanced env req (sys_service sys)) sys)"
      using start_tryon_advanced_job [of env req "sys_service sys"]
      by (intro errors_wf_start [OF wf, of "clock_ms env"])
        (auto simp add: start_tryon_advanced_service)
    with EvStartAdvanced show ?thesis by simp
  next
    case (EvStartTwoPhase env req)
    have "errors_wf (after_start (start_tryon_intimate_two_phase env req (sys_service sys)) sys)"
      using start_two_phase_job [of env req "sys_service sys"]
      by (intro errors_wf_start [OF wf, of "clock_ms env"])
        (auto simp add: start_two_phase_service)
    with EvStartTwoPhase show ?thesis by simp
  next
    case (EvJobDone sid outcome)
    show ?thesis
    proof (cases "StdJob sid \<in> set (running sys)")
      case True
      have "errors_wf \<lparr>sys_service = bg_job sid outcome (sys_service sys),
          running = remove1 (StdJob sid) (running sys)\<rparr>"
        by (rule errors_wf_job_done [OF wf True]) (simp add: bg_job_service)
      with True EvJobDone show ?thesis by simp
    next
      case False
      then show ?thesis using wf EvJobDone by simp
    qed
  next
    case (EvTwoPhaseDone sid outcome)
    show ?thesis
    proof (cases "TwoPhaseJob sid \<in> set (running sys)")
      case True
      have "errors_wf \<lparr>sys_service = bg_job_two_phase sid outcome (sys_service sys),
          running = remove1 (TwoPhaseJob sid) (running sys)\<rparr>"
        by (rule errors_wf_job_done [OF wf True]) (simp add: bg_job_two_phase_service)
      with True EvTwoPhaseDone show ?thesis by simp
    next
      case False
      then show ?thesis using wf EvTwoPhaseDone by simp
    qed
  next
    case (EvPoll sid ef)
    then show ?thesis
      using wf by (simp add: errors_wf_def get_result_errors)
  qed
qed

lemma errors_wf_run: "errors_wf sys \<Longrightarrow> errors_wf (run evs sys)"
  by (induction evs arbitrary: sys) (simp_all add: run_Nil run_Cons errors_wf_step)

lemma errors_wf_reachable: "errors_wf (run evs init_system)"
  by (simp add: errors_wf_run errors_wf_init)

lemma collision_start_state:
  "run collision_start init_system
     = \<lparr>sys_service = new_service, running = [StdJob demo_sid, StdJob demo_sid]\<rparr>"
  by (simp add: collision_start_def run_Cons run_Nil start_demo start_other after_start_def
      init_system_def)

lemma race_trace_state:
  "run race_trace init_system
     = \<lparr>sys_service =
          \<lparr>session_outputs = [demo_sid \<mapsto> ''/static/outputs/gen_1700000004567.jpg''],
           session_errors = [demo_sid \<mapsto> ''blocked by safety filter'']\<rparr>,
        running = []\<rparr>"
  by (simp add: race_trace_def run_append collision_start_state run_Cons run_Nil bg_job_def
      vendor_ok_def vendor_refused_def new_service_def)

text \<open>
  Claim C1.  In every state the orchestrator can reach, if the error table holds a
  message for a session identifier, \<open>get_result\<close> answers with status \<open>error\<close> and that
  message, whatever the success table holds for the session and whatever files the
  outputs directory holds.
\<close>

theorem get_result_error_first:
  assumes "session_errors (sys_service (run evs init_system)) session_id = Some msg"
  shows "get_result (sys_service (run evs init_system)) exists_file session_id =
     ([(''status'', PStr ''error''), (''message'', PStr msg), (''output'', PNone)],
      sys_service (run evs init_system))"
proof -
  have "session_id \<noteq> [] \<and> msg \<noteq> []"
    using errors_wf_reachable [of evs] assms by (simp add: errors_wf_def)
  then show ?thesis
    using assms by (simp add: get_result_def)
qed

theorem get_result_error_first_witness:
  "session_errors (sys_service (run race_trace init_system)) demo_sid
     = Some ''blocked by safety filter''
   \<and> session_outputs (sys_service (run race_trace init_system)) demo_sid
     = Some ''/static/outputs/gen_1700000004567.jpg''
   \<and> session_file_present (demo_sid @ ''.jpg'')
   \<and> fst (get_result (sys_service (run race_trace init_system)) session_file_present demo_sid)
     = [(''status'', PStr ''error''), (''message'', PStr ''blocked by safety filter''),
        (''output'', PNone)]"
  using get_result_error_first [of race_trace demo_sid "''blocked by safety filter''"
      session_file_present]
  by (simp add: race_trace_state session_file_present_def demo_sid_def)

subsection \<open>Terminal sessions\<close>





lemma get_result_terminal_iff:
  "status_of (fst (get_result svc ef sid)) \<noteq> Some (PStr ''pending'')
     \<longleftrightarrow> terminal_for (snd (get_result svc ef sid)) sid"
  by (auto simp add: get_result_def get_result_lookup_def status_of_def dict_get_def Let_def
      terminal_for_def errored_for_def split: option.splits)












subsection \<open>Session identifiers of start calls\<close>

lemma start_tryon_klingai_session_id:
  "start_tryon_klingai env sid req svc = (Inr resp, j, svc')
   \<Longrightarrow> dict_get resp ''session_id'' = Some v \<Longrightarrow> v = PStr sid"
  by (auto simp add: start_tryon_klingai_def error_response_def processing_response_def
      dict_get_def split: if_splits stage_outcome.splits)

lemma start_tryon_session_id:
  "start_tryon env req svc = (Inr resp, j, svc')
   \<Longrightarrow> dict_get resp ''session_id'' = Some v \<Longrightarrow> v = PStr (session_id_of (clock_ms env))"
  by (auto simp add: start_tryon_def start_tryon_gemini_def start_fallback_def Let_def
      error_response_def processing_response_def dict_get_def
      dest: start_tryon_klingai_session_id split: if_splits stage_outcome.splits)

text \<open>
  Claim C8, as amended.  The session identifiers that \<open>start_tryon\<close> hands out to two
  accepted requests are distinct exactly when the two clock readings differ in whole
  milliseconds: the identifier is an injective function of the millisecond timestamp and
  of nothing else.
\<close>

theorem start_tryon_ids_distinct_iff_clock:
  assumes "start_tryon env1 req1 svc1 = (Inr resp1, j1, svc1')"
    and "start_tryon env2 req2 svc2 = (Inr resp2, j2, svc2')"
    and "dict_get resp1 ''session_id'' = Some id1"
    and "dict_get resp2 ''session_id'' = Some id2"
  shows "id1 = id2 \<longleftrightarrow> clock_ms env1 = clock_ms env2"
proof -
  have "id1 = PStr (session_id_of (clock_ms env1))"
    using start_tryon_session_id [OF assms(1) assms(3)] .
  moreover have "id2 = PStr (session_id_of (clock_ms env2))"
    using start_tryon_session_id [OF assms(2) assms(4)] .
  ultimately show ?thesis
    by (simp add: session_id_of_inject)
qed

lemma start_later:
  "start_tryon later_env other_request svc =
     (Inr (processing_response ''tryon_1700000000124'' (PStr ''data:image/jpeg;base64,BBBB'')),
      Some (StdJob ''tryon_1700000000124''), svc)"
  by (simp add: start_tryon_def start_tryon_gemini_def later_env_def demo_env_def
      other_request_def is_data_image_def Let_def session_id_of_def str_int_def str_nat.simps
      digit_char_def)

theorem start_tryon_ids_distinct_iff_clock_witness:
  "start_tryon demo_env demo_request new_service
     = (Inr (processing_response demo_sid (PStr ''data:image/jpeg;base64,AAAA'')),
        Some (StdJob demo_sid), new_service)
   \<and> start_tryon later_env other_request new_service
     = (Inr (processing_response ''tryon_1700000000124'' (PStr ''data:image/jpeg;base64,BBBB'')),
        Some (StdJob ''tryon_1700000000124''), new_service)
   \<and> clock_ms demo_env \<noteq> clock_ms later_env
   \<and> PStr demo_sid \<noteq> PStr ''tryon_1700000000124''"
proof -
  have a: "start_tryon demo_env demo_request new_service
     = (Inr (processing_response demo_sid (PStr ''data:image/jpeg;base64,AAAA'')),
        Some (StdJob demo_sid), new_service)"
    by (rule start_demo)
  have b: "start_tryon later_env other_request new_service
     = (Inr (processing_response ''tryon_1700000000124'' (PStr ''data:image/jpeg;base64,BBBB'')),
        Some (StdJob ''tryon_1700000000124''), new_service)"
    by (rule start_later)
  have c: "dict_get (processing_response demo_sid (PStr ''data:image/jpeg;base64,AAAA''))
      ''session_id'' = Some (PStr demo_sid)"
    by (simp add: processing_response_def dict_get_def)
  have d: "dict_get (processing_response ''tryon_1700000000124''
      (PStr ''data:image/jpeg;base64,BBBB'')) ''session_id'' = Some (PStr ''tryon_1700000000124'')"
    by (simp add: processing_response_def dict_get_def)
  have e: "clock_ms demo_env \<noteq> clock_ms later_env"
    by (simp add: later_env_def demo_env_def)
  from start_tryon_ids_distinct_iff_clock [OF a b c d] e
  have "PStr demo_sid \<noteq> PStr ''tryon_1700000000124''" by blast
  with a b e show ?thesis by blast
qed

text \<open>
  Claim C8 as stated fails: two different requests that arrive within the same
  millisecond are both accepted, each starts a background job, and both get the same
  session identifier.
\<close>

theorem same_millisecond_same_id_counterexample:
  "demo_request \<noteq> other_request
   \<and> start_tryon demo_env demo_request new_service
     = (Inr [(''session_id'', PStr ''tryon_1700000000123''), (''status'', PStr ''processing''),
             (''preview'', PStr ''data:image/jpeg;base64,AAAA'')],
        Some (StdJob ''tryon_1700000000123''), new_service)
   \<and> start_tryon demo_env other_request new_service
     = (Inr [(''session_id'', PStr ''tryon_1700000000123''), (''status'', PStr ''processing''),
             (''preview'', PStr ''data:image/jpeg;base64,BBBB'')],
        Some (StdJob ''tryon_1700000000123''), new_service)
   \<and> running (run collision_start init_system)
     = [StdJob ''tryon_1700000000123'', StdJob ''tryon_1700000000123'']"
proof -
  have "demo_request \<noteq> other_request"
    by (simp add: demo_request_def other_request_def)
  then show ?thesis
    by (simp add: start_demo start_other processing_response_def demo_sid_def
        collision_start_state)
qed

section \<open>ROI boxes\<close>

text \<open>
  Claim C7.  For image dimensions \<open>w \<ge> 1\<close> and \<open>h \<ge> 1\<close> the lower-body and the upper-body
  box \<open>(left, top, right, bottom)\<close> satisfy \<open>0 \<le> left < right \<le> w\<close> and
  \<open>0 \<le> top < bottom \<le> h\<close>, whatever integers the four rounded products are.
\<close>

theorem roi_boxes_within_image:
  assumes "1 \<le> w" and "1 \<le> h"
  shows "box_within w h (compute_lower_body_roi scale w h)
    \<and> box_within w h (compute_upper_body_roi scale w h)"
proof -
  have clamp: "0 \<le> max 0 (min a (n - 1))
      \<and> max 0 (min a (n - 1)) < max (max 0 (min a (n - 1)) + 1) (min b n)
      \<and> max (max 0 (min a (n - 1)) + 1) (min b n) \<le> n"
    if "1 \<le> n" for a b n :: int
    using that by linarith
  show ?thesis
    using clamp [OF assms(1)] clamp [OF assms(2)]
    by (simp only: box_within_def compute_lower_body_roi_def compute_upper_body_roi_def
        Let_def prod.case)
qed

lemma roi_one_pixel:
  "compute_lower_body_roi exact_scale 1 1 = (0, 0, 1, 1)"
  "compute_upper_body_roi exact_scale 1 1 = (0, 0, 1, 1)"
  by code_simp+

theorem roi_boxes_within_image_witness:
  "(1::int) \<le> 640 \<and> (1::int) \<le> 480
   \<and> compute_lower_body_roi exact_scale 640 480 = (96, 216, 544, 442)
   \<and> compute_upper_body_roi exact_scale 640 480 = (64, 24, 576, 264)
   \<and> box_within 640 480 (compute_lower_body_roi exact_scale 640 480)
   \<and> box_within 640 480 (compute_upper_body_roi exact_scale 640 480)"
proof -
  have lower: "compute_lower_body_roi exact_scale 640 480 = (96, 216, 544, 442)"
    by code_simp
  have upper: "compute_upper_body_roi exact_scale 640 480 = (64, 24, 576, 264)"
    by code_simp
  show ?thesis
    using roi_boxes_within_image [of 640 480 exact_scale] lower upper by simp
qed

section \<open>The vendor's status vocabulary\<close>

text \<open>
  On a 200 reply the image poller returns the vendor's JSON for \<open>completed\<close>, \<open>succeed\<close>
  and \<open>success\<close>, gives up with \<open>None\<close> for \<open>failed\<close> and \<open>error\<close>, and polls again for
  \<open>processing\<close>, \<open>submitted\<close> and \<open>pending\<close>.
\<close>

lemma poll_task_result_done:
  "tj_task_status result \<in> {Some ''completed'', Some ''succeed'', Some ''success''}
   \<Longrightarrow> poll_task_result True (PollReply 200 (PollJson result) # rs) = Some result"
  by auto

lemma poll_task_result_failed:
  "tj_task_status result \<in> {Some ''failed'', Some ''error''}
   \<Longrightarrow> poll_task_result True (PollReply 200 (PollJson result) # rs) = None"
  by auto

lemma poll_task_result_processing:
  "tj_task_status result \<in> {Some ''processing'', Some ''submitted'', Some ''pending''}
   \<Longrightarrow> poll_task_result True (PollReply 200 (PollJson result) # rs)
       = poll_task_result True rs"
  by auto

lemma demo_keys: "truthy (access_key demo_video_service)" "truthy (secret_key demo_video_service)"
  by (simp_all add: demo_video_service_def)

lemma str_int_values:
  "str_int 7 = ''7''"
  "str_int 1700000010000 = ''1700000010000''"
  "str_int 1700000012000 = ''1700000012000''"
  by (simp_all add: str_int_def str_nat.simps digit_char_def)

text \<open>
  The video poller on a 200 reply: \<open>failed\<close> and \<open>error\<close> give the answer \<open>failed\<close>;
  \<open>processing\<close>, \<open>submitted\<close> and \<open>pending\<close> give \<open>processing\<close>; \<open>succeed\<close> and \<open>success\<close>
  lead to the download (lemma \<open>poll_video_task_success\<close> below).
\<close>

lemma poll_video_task_failed:
  assumes "truthy (access_key svc)" and "truthy (secret_key svc)" and "vp_requests_lib env"
    and "vp_reply env = PollReply 200 (PollJson data)"
    and "tj_task_status data \<in> {Some ''failed'', Some ''error''}"
  shows "fst (poll_video_task svc env task_id wld)
     = poll_answer ''failed'' PNone
         (PStr (py_or (tj_task_status_msg data) ''Video generation failed''))"
  using assms by (auto simp add: poll_video_task_def Let_def)

lemma poll_video_task_processing:
  assumes "truthy (access_key svc)" and "truthy (secret_key svc)" and "vp_requests_lib env"
    and "vp_reply env = PollReply 200 (PollJson data)"
    and "tj_task_status data \<in> {Some ''processing'', Some ''submitted'', Some ''pending''}"
  shows "fst (poll_video_task svc env task_id wld)
     = poll_answer ''processing'' PNone (PStr ''Video is being generated...'')"
  using assms by (auto simp add: poll_video_task_def Let_def)

text \<open>
  Claim C3 at the input where the code departs from it.  The vendor answers 200 with
  \<open>task_status = "completed"\<close> and a video URL.  The image try-on poller takes this as
  done and returns the result; the video poller falls through to its last branch and
  answers \<open>unknown\<close> with the message \<open>Unknown status: completed\<close>, without downloading.
\<close>

theorem poll_video_task_completed_unknown:
  "poll_task_result True [PollReply 200 (PollJson (task_with_status ''completed''))]
     = Some (task_with_status ''completed'')
   \<and> poll_video_task demo_video_service (poll_env_at 1700000010000 ''completed'') ''T1'' new_world
     = ([(''status'', PStr ''unknown''), (''output_path'', PNone),
         (''message'', PStr ''Unknown status: completed'')],
        \<lparr>requests_sent = [HttpGet ''https://api.klingai.com/v1/videos/image2video/T1''],
         files_written = []\<rparr>)"
  by (simp add: poll_video_task_def poll_env_at_def task_with_status_def demo_keys Let_def
      poll_answer_def new_world_def api_base_url_def)

theorem poll_video_task_completed_unknown_witness:
  "status_of (fst (poll_video_task demo_video_service (poll_env_at 1700000010000 ''completed'') ''T1'' new_world))
     = Some (PStr ''unknown'')
   \<and> files_written (snd (poll_video_task demo_video_service (poll_env_at 1700000010000 ''completed'') ''T1''
        new_world)) = []"
  using poll_video_task_completed_unknown by (simp add: status_of_def dict_get_def)

section \<open>Repeated polls of a finished video task\<close>

lemma poll_video_task_success:
  assumes "truthy (access_key svc)" and "truthy (secret_key svc)"
    and "reports_success url env"
  shows "poll_video_task svc env task_id wld =
     (poll_answer ''completed'' (PStr (''/static/outputs/'' @ video_file_name env)) PNone,
      wld\<lparr>requests_sent := requests_sent wld
              @ [HttpGet (api_base_url @ ''/v1/videos/image2video/'' @ task_id), HttpGet url],
           files_written := files_written wld @ [(video_file_name env, download_content env)]\<rparr>)"
proof -
  from assms(3) obtain data others content where
    lib: "vp_requests_lib env" and url: "url \<noteq> []"
    and reply: "vp_reply env = PollReply 200 (PollJson data)"
    and st: "tj_task_status data \<in> {Some ''succeed'', Some ''success''}"
    and urls: "tj_video_urls data = Some url # others"
    and dl: "vp_download env = Download 200 content"
    by (auto simp add: reports_success_def
        split: poll_reply.splits poll_body.splits list.splits option.splits
          download_reply.splits)
  from st have st': "tj_task_status data = Some ''succeed'' \<or> tj_task_status data = Some ''success''"
    by simp
  show ?thesis
    using assms(1,2) lib url reply st' urls dl
    by (simp add: poll_video_task_def Let_def video_file_name_def)
qed

text \<open>
  Claim C4, as amended.  \<open>poll_video_task\<close> keeps no record of finished tasks.  Every
  poll that finds the task succeeded, with a video URL and a 200 download, requests the
  status, downloads the video again and writes it to a new file \<open>video_<ms>.mp4\<close> named
  after the clock at that poll; \<open>n\<close> such polls send \<open>n\<close> downloads and write \<open>n\<close> files,
  and each answer names the file of its own poll.
\<close>

theorem poll_repeatedly_downloads_each_time:
  assumes "truthy (access_key svc)" and "truthy (secret_key svc)"
    and "\<forall>env \<in> set envs. reports_success url env"
  shows "poll_repeatedly svc envs task_id wld =
     (map (\<lambda>env. poll_answer ''completed'' (PStr (''/static/outputs/'' @ video_file_name env)) PNone)
        envs,
      wld\<lparr>requests_sent := requests_sent wld
              @ concat (map (\<lambda>env. [HttpGet (api_base_url @ ''/v1/videos/image2video/'' @ task_id),
                                     HttpGet url]) envs),
           files_written := files_written wld
              @ map (\<lambda>env. (video_file_name env, download_content env)) envs\<rparr>)"
  using assms(3)
proof (induction envs arbitrary: wld)
  case Nil
  then show ?case by simp
next
  case (Cons env envs)
  have one: "reports_success url env" using Cons.prems by simp
  have rest: "\<forall>env \<in> set envs. reports_success url env" using Cons.prems by simp
  show ?case
    by (simp add: poll_video_task_success [OF assms(1,2) one] Cons.IH [OF rest])
qed

lemma two_polls_report_success:
  "\<forall>env \<in> set [poll_env_at 1700000010000 ''succeed'', poll_env_at 1700000012000 ''succeed''].
     reports_success ''https://cdn.example/v.mp4'' env"
  by (simp add: reports_success_def poll_env_at_def task_with_status_def)

theorem poll_repeatedly_downloads_each_time_witness:
  "truthy (access_key demo_video_service) \<and> truthy (secret_key demo_video_service)
   \<and> reports_success ''https://cdn.example/v.mp4'' (poll_env_at 1700000010000 ''succeed'')
   \<and> reports_success ''https://cdn.example/v.mp4'' (poll_env_at 1700000012000 ''succeed'')
   \<and> files_written (snd (poll_repeatedly demo_video_service
        [poll_env_at 1700000010000 ''succeed'', poll_env_at 1700000012000 ''succeed''] ''T1'' new_world))
     = [(''video_1700000010000.mp4'', ''mp4-bytes''), (''video_1700000012000.mp4'', ''mp4-bytes'')]"
proof -
  have "files_written (snd (poll_repeatedly demo_video_service
        [poll_env_at 1700000010000 ''succeed'', poll_env_at 1700000012000 ''succeed''] ''T1'' new_world))
     = [(''video_1700000010000.mp4'', ''mp4-bytes''), (''video_1700000012000.mp4'', ''mp4-bytes'')]"
    using poll_repeatedly_downloads_each_time [OF demo_keys two_polls_report_success,
        of "''T1''" new_world]
    by (simp add: new_world_def video_file_name_def poll_env_at_def str_int_values)
  then show ?thesis
    using demo_keys two_polls_report_success by simp
qed

text \<open>
  Claim C4 as stated fails: two polls of the same succeeded task, two seconds apart,
  download the video twice, write two files and return two different output paths.
\<close>

theorem second_poll_downloads_again_counterexample:
  "poll_repeatedly demo_video_service [poll_env_at 1700000010000 ''succeed'', poll_env_at 1700000012000 ''succeed'']
     ''T1'' new_world
   = ([[(''status'', PStr ''completed''), (''output_path'', PStr ''/static/outputs/video_1700000010000.mp4''),
        (''message'', PNone)],
       [(''status'', PStr ''completed''), (''output_path'', PStr ''/static/outputs/video_1700000012000.mp4''),
        (''message'', PNone)]],
      \<lparr>requests_sent =
         [HttpGet ''https://api.klingai.com/v1/videos/image2video/T1'',
          HttpGet ''https://cdn.example/v.mp4'',
          HttpGet ''https://api.klingai.com/v1/videos/image2video/T1'',
          HttpGet ''https://cdn.example/v.mp4''],
       files_written = [(''video_1700000010000.mp4'', ''mp4-bytes''), (''video_1700000012000.mp4'', ''mp4-bytes'')]\<rparr>)"
  by (simp add: poll_video_task_def poll_env_at_def task_with_status_def demo_keys Let_def
      poll_answer_def new_world_def api_base_url_def str_int_values)

section \<open>The duration of a video request\<close>

text \<open>
  Claim C5, as amended.  \<open>generate_video\<close> rejects a request before the network call
  only when a credential is missing, the HTTP library is missing, the image does not
  exist or cannot be encoded.  When these checks pass it sends exactly one POST to the
  vendor whose payload carries \<open>str(duration)\<close>, for every integer duration; when one of
  them fails it sends nothing and answers with an error.
\<close>

theorem generate_video_any_duration:
  "(gen_checks_pass svc env \<longrightarrow>
      (\<exists>payload.
         requests_sent (snd (generate_video svc env image_path prompt duration wld))
           = requests_sent wld @ [HttpPost (api_base_url @ ''/v1/videos/image2video'') payload]
         \<and> map_of payload ''duration'' = Some (str_int duration)))
   \<and> (\<not> gen_checks_pass svc env \<longrightarrow>
        snd (generate_video svc env image_path prompt duration wld) = wld
        \<and> dict_get (fst (generate_video svc env image_path prompt duration wld)) ''status''
            = Some (PStr ''error''))"
  by (auto simp add: generate_video_def gen_checks_pass_def Let_def video_error_def dict_get_def
      split: option.splits post_reply.splits post_body.splits)

lemma demo_gen_checks: "gen_checks_pass demo_video_service demo_gen_env"
  by (simp add: gen_checks_pass_def demo_video_service_def demo_gen_env_def)

theorem generate_video_any_duration_witness:
  "gen_checks_pass demo_video_service demo_gen_env
   \<and> (\<exists>payload.
         requests_sent (snd (generate_video demo_video_service demo_gen_env ''/img.jpg''
             ''turn'' 7 new_world))
           = requests_sent new_world @ [HttpPost (api_base_url @ ''/v1/videos/image2video'') payload]
         \<and> map_of payload ''duration'' = Some ''7'')"
  using generate_video_any_duration [of demo_video_service demo_gen_env "''/img.jpg''" "''turn''"
      7 new_world] demo_gen_checks
  by (simp add: str_int_values)

text \<open>
  Claim C5 as stated fails: with the duration 7 (the vendor supports 5 and 10) the
  service, called directly or through the route \<open>POST /api/video/generate\<close>, posts the
  request to the vendor with \<open>"duration": "7"\<close> and answers \<open>processing\<close>.
\<close>

theorem duration_seven_reaches_vendor_counterexample:
  "generate_video demo_video_service demo_gen_env ''/srv/demo/static/outputs/gen_1700000004567.jpg''
     ''turn the head slowly'' 7 new_world
   = ([(''status'', PStr ''processing''), (''task_id'', PStr ''T1''), (''output_path'', PNone),
       (''message'', PStr ''Video generation started'')],
      \<lparr>requests_sent =
         [HttpPost ''https://api.klingai.com/v1/videos/image2video''
            [(''model_name'', ''kling-v1''), (''image'', ''aGVsbG8=''),
             (''prompt'', ''turn the head slowly''), (''duration'', ''7''), (''mode'', ''std'')]],
       files_written = []\<rparr>)
   \<and> api_generate_video demo_video_service demo_gen_env ''/srv/demo'' demo_video_payload new_world
   = (([(''status'', PStr ''processing''), (''task_id'', PStr ''T1''), (''output_path'', PNone),
        (''message'', PStr ''Video generation started'')], 200),
      \<lparr>requests_sent =
         [HttpPost ''https://api.klingai.com/v1/videos/image2video''
            [(''model_name'', ''kling-v1''), (''image'', ''aGVsbG8=''),
             (''prompt'', ''turn the head slowly''), (''duration'', ''7''), (''mode'', ''std'')]],
       files_written = []\<rparr>)"
  by (simp add: api_generate_video_def generate_video_def demo_video_service_def demo_gen_env_def
      demo_video_payload_def resolve_image_path_def Let_def ascii_lower_def str_int_values
      new_world_def api_base_url_def dict_get_def)

end
